theory Spec2Isabelle
  imports Complex_Main "HOL-Library.Sublist" "HOL-Library.Multiset"
begin

section \<open>Strings and regular expressions of the host language\<close>

text \<open>
  The analysers work on JavaScript strings with \<open>String.prototype.includes\<close>,
  \<open>toLowerCase\<close>, \<open>split\<close>, \<open>trim\<close> and regular expressions. A text is a
  \<open>string\<close> (one \<open>char\<close> per code unit, code units below 256); numbers are \<open>int\<close>
  where the source only counts and \<open>real\<close> where it divides or takes a square root
  (the rounding of IEEE doubles is not part of the model).
\<close>

definition lower_chars :: string where
  "lower_chars = ''abcdefghijklmnopqrstuvwxyz''"

definition upper_chars :: string where
  "upper_chars = ''ABCDEFGHIJKLMNOPQRSTUVWXYZ''"

definition digit_chars :: string where
  "digit_chars = ''0123456789''"

definition word_chars :: string where
  \<comment> \<open>the class \<open>\w\<close>\<close>
  "word_chars = lower_chars @ upper_chars @ digit_chars @ ''_''"

definition space_chars :: string where
  \<comment> \<open>the class \<open>\s\<close>: tab, line feed, vertical tab, form feed, carriage return, space, no-break space\<close>
  "space_chars = [CHR 0x09, CHR 0x0A, CHR 0x0B, CHR 0x0C, CHR 0x0D, CHR 0x20, CHR 0xA0]"

definition line_terminators :: string where
  "line_terminators = [CHR 0x0A, CHR 0x0D]"

definition quote_chars :: string where
  \<comment> \<open>single quote, double quote, backtick\<close>
  "quote_chars = [CHR 0x27, CHR 0x22, CHR 0x60]"

text \<open>
  Case mapping is the one of the ASCII letters; every other code unit is left alone. All
  words and classes the source searches for are ASCII, and neither \<open>toLowerCase\<close> nor the
  \<open>i\<close> flag maps a code unit outside ASCII to one inside, so no test of the source depends
  on the case mapping of the other code units.
\<close>

definition toLowerChar :: "char \<Rightarrow> char" where
  "toLowerChar c = (case map_of (zip upper_chars lower_chars) c of Some d \<Rightarrow> d | None \<Rightarrow> c)"

definition toUpperChar :: "char \<Rightarrow> char" where
  "toUpperChar c = (case map_of (zip lower_chars upper_chars) c of Some d \<Rightarrow> d | None \<Rightarrow> c)"

definition toLowerCase :: "string \<Rightarrow> string" where
  "toLowerCase s = map toLowerChar s"

text \<open>Two code units are equal under the \<open>i\<close> flag when their upper-case forms are.\<close>

definition char_eq :: "bool \<Rightarrow> char \<Rightarrow> char \<Rightarrow> bool" where
  "char_eq ci a b = (a = b \<or> (ci \<and> toUpperChar a = toUpperChar b))"

definition in_class :: "bool \<Rightarrow> string \<Rightarrow> char \<Rightarrow> bool" where
  "in_class ci cs c = list_ex (char_eq ci c) cs"

fun lit_run :: "bool \<Rightarrow> string \<Rightarrow> string \<Rightarrow> string option" where
  "lit_run ci [] s = Some s"
| "lit_run ci (p # ps) [] = None"
| "lit_run ci (p # ps) (c # cs) = (if char_eq ci p c then lit_run ci ps cs else None)"

definition startsWith :: "string \<Rightarrow> string \<Rightarrow> bool" where
  "startsWith s w = (lit_run False w s \<noteq> None)"

fun str_includes :: "string \<Rightarrow> string \<Rightarrow> bool" where
  "str_includes [] w = (w = [])"
| "str_includes (c # cs) w = (startsWith (c # cs) w \<or> str_includes cs w)"

text \<open>
  The regular expressions the source writes. \<open>Cls\<close> is a character class, \<open>NCls\<close> a
  negated one, \<open>Group\<close> the capture group 1 and \<open>BackRef\<close> the back-reference \<open>\1\<close>,
  \<open>EndInput\<close> is \<open>$\<close> (no \<open>m\<close> flag is used anywhere).
\<close>

datatype regex =
    Lit string
  | Cls string
  | NCls string
  | Seq regex regex
  | Alt regex regex
  | Star regex
  | LazyStar regex
  | Group regex
  | BackRef
  | EndInput

type_synonym mstate = "string \<times> string option"

text \<open>
  A backtracking matcher: from a state (rest of the input, capture of group 1) the list of
  all states a match can end in, in the order in which the backtracking of the host's
  engine tries them. An iteration of a star that consumes nothing is rejected, as in
  ECMAScript.
\<close>

fun star_run :: "(mstate \<Rightarrow> mstate list) \<Rightarrow> bool \<Rightarrow> mstate \<Rightarrow> mstate list" where
  "star_run f lazy st =
     (let more = concat (map (star_run f lazy)
                   (filter (\<lambda>st'. length (fst st') < length (fst st)) (f st)))
      in if lazy then st # more else more @ [st])"

declare star_run.simps [simp del]

fun rx_run :: "bool \<Rightarrow> regex \<Rightarrow> mstate \<Rightarrow> mstate list" where
  "rx_run ci (Lit p) (s, g) = (case lit_run ci p s of None \<Rightarrow> [] | Some r \<Rightarrow> [(r, g)])"
| "rx_run ci (Cls cs) (s, g) =
     (case s of [] \<Rightarrow> [] | c # r \<Rightarrow> if in_class ci cs c then [(r, g)] else [])"
| "rx_run ci (NCls cs) (s, g) =
     (case s of [] \<Rightarrow> [] | c # r \<Rightarrow> if in_class ci cs c then [] else [(r, g)])"
| "rx_run ci (Seq a b) st = concat (map (rx_run ci b) (rx_run ci a st))"
| "rx_run ci (Alt a b) st = rx_run ci a st @ rx_run ci b st"
| "rx_run ci (Star a) st = star_run (rx_run ci a) False st"
| "rx_run ci (LazyStar a) st = star_run (rx_run ci a) True st"
| "rx_run ci (Group a) (s, g) =
     map (\<lambda>(r, _). (r, Some (take (length s - length r) s))) (rx_run ci a (s, g))"
| "rx_run ci BackRef (s, g) =
     (case g of None \<Rightarrow> [(s, g)]
      | Some w \<Rightarrow> (case lit_run ci w s of None \<Rightarrow> [] | Some r \<Rightarrow> [(r, g)]))"
| "rx_run ci EndInput (s, g) = (if s = [] then [(s, g)] else [])"

text \<open>\<open>RegExp.prototype.test\<close> and a truthy \<open>String.prototype.match\<close>: a match starts somewhere.\<close>

fun rx_test :: "bool \<Rightarrow> regex \<Rightarrow> string \<Rightarrow> bool" where
  "rx_test ci r [] = (rx_run ci r ([], None) \<noteq> [])"
| "rx_test ci r (c # cs) = (rx_run ci r (c # cs, None) \<noteq> [] \<or> rx_test ci r cs)"

text \<open>
  Matching with the \<open>g\<close> flag (\<open>match\<close>, \<open>matchAll\<close>): the successive leftmost matches,
  each with its text and its capture; after an empty match the search moves on by one
  code unit.
\<close>

fun match_all :: "bool \<Rightarrow> regex \<Rightarrow> string \<Rightarrow> (string \<times> string option) list" where
  "match_all ci r s =
     (case rx_run ci r (s, None) of
        [] \<Rightarrow> (case s of [] \<Rightarrow> [] | c # cs \<Rightarrow> match_all ci r cs)
      | (rest, g) # _ \<Rightarrow>
          (take (length s - length rest) s, g) #
          (if length rest < length s then match_all ci r rest
           else (case s of [] \<Rightarrow> [] | c # cs \<Rightarrow> match_all ci r cs)))"

declare match_all.simps [simp del]

definition match_count :: "bool \<Rightarrow> regex \<Rightarrow> string \<Rightarrow> nat" where
  \<comment> \<open>\<open>(s.match(/r/g) || []).length\<close>\<close>
  "match_count ci r s = length (match_all ci r s)"

text \<open>\<open>s.replace(/r/g, '')\<close> for an expression that matches no empty text.\<close>

fun remove_all :: "bool \<Rightarrow> regex \<Rightarrow> string \<Rightarrow> string" where
  "remove_all ci r [] = []"
| "remove_all ci r (c # cs) =
     (case rx_run ci r (c # cs, None) of
        [] \<Rightarrow> c # remove_all ci r cs
      | (rest, g) # _ \<Rightarrow>
          if length rest < length (c # cs) then remove_all ci r rest
          else c # remove_all ci r cs)"

text \<open>
  \<open>s.split(/r/)\<close> for an expression that matches no empty text and has no capture:
  \<open>acc\<close> is the piece read so far.
\<close>

fun split_rx :: "bool \<Rightarrow> regex \<Rightarrow> string \<Rightarrow> string \<Rightarrow> string list" where
  "split_rx ci r acc [] = [acc]"
| "split_rx ci r acc (c # cs) =
     (case rx_run ci r (c # cs, None) of
        [] \<Rightarrow> split_rx ci r (acc @ [c]) cs
      | (rest, g) # _ \<Rightarrow>
          if length rest < length (c # cs) then acc # split_rx ci r [] rest
          else split_rx ci r (acc @ [c]) cs)"

definition split_lines :: "string \<Rightarrow> string list" where
  \<comment> \<open>\<open>s.split('\n')\<close>\<close>
  "split_lines s = split_rx False (Lit [CHR 0x0A]) [] s"

definition trim :: "string \<Rightarrow> string" where
  "trim s = rev (dropWhile (\<lambda>c. c \<in> set space_chars)
              (rev (dropWhile (\<lambda>c. c \<in> set space_chars) s)))"

fun alts :: "regex list \<Rightarrow> regex" where
  "alts [] = Cls []"
| "alts [r] = r"
| "alts (r # rs) = Alt r (alts rs)"

fun seqs :: "regex list \<Rightarrow> regex" where
  "seqs [] = Lit []"
| "seqs [r] = r"
| "seqs (r # rs) = Seq r (seqs rs)"

definition words :: "string list \<Rightarrow> regex" where
  \<comment> \<open>an alternation of literal words\<close>
  "words ws = alts (map Lit ws)"

definition Plus :: "regex \<Rightarrow> regex" where
  "Plus r = Seq r (Star r)"

definition Opt :: "regex \<Rightarrow> regex" where
  "Opt r = Alt r (Lit [])"

definition AtLeast :: "nat \<Rightarrow> regex \<Rightarrow> regex" where
  "AtLeast n r = seqs (replicate n r @ [Star r])"

definition Dot :: regex where
  "Dot = NCls line_terminators"

definition AnyChar :: regex where
  \<comment> \<open>\<open>[\s\S]\<close>\<close>
  "AnyChar = NCls []"

definition Sp :: regex where
  "Sp = Cls space_chars"

definition Wd :: regex where
  "Wd = Cls word_chars"

definition Dg :: regex where
  "Dg = Cls digit_chars"

definition any_test :: "bool \<Rightarrow> regex list \<Rightarrow> string \<Rightarrow> bool" where
  \<comment> \<open>the source's loop over a pattern array that sets a flag and breaks\<close>
  "any_test ci ps s = list_ex (\<lambda>p. rx_test ci p s) ps"


section \<open>Language detection\<close>

datatype language = Unknown | Rust | Java | Python | JavaScript | Cpp

text \<open>The tag as \<open>localSecurityAnalysis\<close> and \<open>localEcoAnalysis\<close> spell it.\<close>

fun security_language_name :: "language \<Rightarrow> string" where
  "security_language_name Unknown = ''unknown''"
| "security_language_name Rust = ''rust''"
| "security_language_name Java = ''java''"
| "security_language_name Python = ''python''"
| "security_language_name JavaScript = ''javascript''"
| "security_language_name Cpp = ''c/c++''"

fun eco_language_name :: "language \<Rightarrow> string" where
  "eco_language_name Unknown = ''unknown''"
| "eco_language_name Rust = ''Rust''"
| "eco_language_name Java = ''Java''"
| "eco_language_name Python = ''Python''"
| "eco_language_name JavaScript = ''JavaScript/TypeScript''"
| "eco_language_name Cpp = ''C/C++''"

definition rust_signature :: "string \<Rightarrow> bool" where
  "rust_signature lc = (str_includes lc ''fn main'' \<and>
     (str_includes lc ''impl'' \<or> str_includes lc ''struct'' \<or> str_includes lc ''use std''))"

definition java_signature :: "string \<Rightarrow> bool" where
  "java_signature lc = str_includes lc ''public static void main''"

definition python_signature :: "string \<Rightarrow> bool" where
  "python_signature lc = (str_includes lc ''def '' \<and>
     (str_includes lc ''import '' \<or> str_includes lc ''class ''))"

definition security_js_signature :: "string \<Rightarrow> bool" where
  "security_js_signature lc = (str_includes lc ''console.log'' \<or> str_includes lc ''function('' \<or>
     str_includes lc ''const '' \<or> str_includes lc ''let '')"

definition eco_js_pattern :: regex where
  \<comment> \<open>\<open>/console\.log|function\s*\(|const\s+|let\s+|var\s+/\<close>\<close>
  "eco_js_pattern = alts [Lit ''console.log'', seqs [Lit ''function'', Star Sp, Lit ''(''],
     Seq (Lit ''const'') (Plus Sp), Seq (Lit ''let'') (Plus Sp), Seq (Lit ''var'') (Plus Sp)]"

definition eco_js_signature :: "string \<Rightarrow> bool" where
  "eco_js_signature lc = rx_test False eco_js_pattern lc"

definition cpp_signature :: "string \<Rightarrow> bool" where
  "cpp_signature lc = str_includes lc ''#include''"

definition security_language :: "string \<Rightarrow> language" where
  "security_language request =
     (let lowercaseCode = toLowerCase request in
      if rust_signature lowercaseCode then Rust
      else if java_signature lowercaseCode then Java
      else if python_signature lowercaseCode then Python
      else if security_js_signature lowercaseCode then JavaScript
      else if cpp_signature lowercaseCode then Cpp
      else Unknown)"

definition eco_language :: "string \<Rightarrow> language" where
  "eco_language code =
     (let lowercaseCode = toLowerCase code in
      if rust_signature lowercaseCode then Rust
      else if java_signature lowercaseCode then Java
      else if eco_js_signature lowercaseCode then JavaScript
      else if python_signature lowercaseCode then Python
      else if cpp_signature lowercaseCode then Cpp
      else Unknown)"


section \<open>The security rule engine: \<open>localSecurityAnalysis\<close>\<close>

datatype RiskLevel = Low | Medium | High | Critical

fun rank :: "RiskLevel \<Rightarrow> nat" where
  "rank Low = 0"
| "rank Medium = 1"
| "rank High = 2"
| "rank Critical = 3"

record sec_state =
  riskLevel :: RiskLevel
  threats :: "string list"
  recommendations :: "string list"

record security_report = sec_state +
  confidenceLevel :: real

subsection \<open>The pattern arrays\<close>

definition http_verbs :: regex where
  "http_verbs = words [''get'', ''post'', ''put'', ''delete'', ''patch'']"

definition apiEndpointPatterns :: "regex list" where
  "apiEndpointPatterns =
    [Seq (Lit ''api/'') (Plus Wd),
     seqs [Lit ''/v'', Plus Dg, Lit ''/'', Plus Wd],
     words [''@route'', ''@api'', ''@endpoint''],
     Seq (Lit ''router.'') http_verbs,
     Seq (Lit ''app.'') http_verbs,
     Seq (Lit ''@'') http_verbs]"

definition corsPatterns :: "regex list" where
  "corsPatterns = [Lit ''cors'', Lit ''access-control-allow-origin'', Lit ''origin:'']"

definition permissiveCorsPattern :: regex where
  \<comment> \<open>a quoted star: single or double quote, \<open>*\<close>, single or double quote\<close>
  "permissiveCorsPattern = seqs [Cls [CHR 0x27, CHR 0x22], Lit ''*'', Cls [CHR 0x27, CHR 0x22]]"

definition authPatterns :: "regex list" where
  "authPatterns =
    [words [''auth'', ''authenticate'', ''login'', ''token'', ''verify'', ''session''],
     words [''jwt'', ''oauth'', ''passport'', ''bearer'', ''basic auth'']]"

definition validationPatterns :: "regex list" where
  "validationPatterns =
    [words [''validate'', ''validation'', ''sanitize'', ''sanitization'', ''escape''],
     words [''schema'', ''joi'', ''yup'', ''zod'', ''validator'', ''isvalid'']]"

definition inputPatterns :: "regex list" where
  "inputPatterns =
    [words [''req.body'', ''req.params'', ''req.query'', ''request.''],
     words [''input'', ''form data'', ''formdata'', ''parseform''],
     Seq (Lit ''get'') (words [''parameter'', ''attribute'', ''element'']),
     Lit ''.val()'']"

definition sensitiveDataPatterns :: "regex list" where
  "sensitiveDataPatterns =
    [alts [Lit ''password'', seqs [Lit ''credit'', Opt Dot, Lit ''card''], Lit ''ssn'',
           seqs [Lit ''social'', Opt Dot, Lit ''security''], Lit ''passport'',
           Lit ''address'', Lit ''email'', Lit ''phone''],
     alts [seqs [Lit ''personal'', Opt Dot, Lit ''data''], Lit ''pii'', Lit ''kyc'',
           Lit ''medical'', Lit ''health'', Lit ''financial'']]"

definition encryptionPatterns :: "regex list" where
  "encryptionPatterns =
    [words [''encrypt'', ''encryption'', ''cipher'', ''hash'', ''bcrypt'', ''scrypt'', ''pbkdf2''],
     alts [Lit ''aes'', Lit ''rsa'', Seq (Lit ''sha'') (Plus Dg), Lit ''crypto'', Lit ''ssl'',
           Lit ''tls'']]"

definition loggingPatterns :: "regex list" where
  "loggingPatterns = [words [''console.log'', ''print'', ''logger'', ''debug'', ''logging'']]"

definition errorHandlingPatterns :: "regex list" where
  "errorHandlingPatterns =
    [alts [seqs [Lit ''try'', Star Sp, Lit ''{''], seqs [Lit ''catch'', Star Sp, Lit ''(''],
           Lit ''except:'', Lit ''rescue'', Lit ''finally'', Lit ''throw'', Lit ''raise'']]"

definition secureHeadersPatterns :: "regex list" where
  "secureHeadersPatterns =
    [words [''content-security-policy'', ''csp''],
     words [''strict-transport-security'', ''hsts''],
     Lit ''x-content-type-options'',
     Lit ''x-frame-options'',
     Lit ''x-xss-protection'',
     Lit ''helmet'']"

definition credentialPattern :: regex where
  \<comment> \<open>a quote, eight or more of \<open>[a-z0-9!@#$%^&*()]\<close>, a quote\<close>
  "credentialPattern =
     seqs [Cls quote_chars, AtLeast 8 (Cls (lower_chars @ digit_chars @ ''!@#$%^&*()'')),
           Cls quote_chars]"

definition frontendSecurityPatterns :: "regex list" where
  "frontendSecurityPatterns =
    [words [''innerhtml'', ''outerhtml''],
     words [''localstorage'', ''sessionstorage''],
     Lit ''postmessage'']"

subsection \<open>The flags computed from the text\<close>

definition hasApiEndpoints :: "string \<Rightarrow> bool" where
  "hasApiEndpoints request = any_test False apiEndpointPatterns request"

definition hasCorsConfig :: "string \<Rightarrow> bool" where
  "hasCorsConfig request = any_test True corsPatterns request"

definition permissiveCors :: "string \<Rightarrow> bool" where
  "permissiveCors request =
     (rx_test True permissiveCorsPattern request \<and>
      rx_test True (Lit ''access-control-allow-origin'') request)"

definition hasAuth :: "string \<Rightarrow> bool" where
  "hasAuth request = any_test True authPatterns request"

definition hasValidation :: "string \<Rightarrow> bool" where
  "hasValidation request = any_test True validationPatterns request"

definition hasUserInput :: "string \<Rightarrow> bool" where
  "hasUserInput request = any_test True inputPatterns request"

definition hasSensitiveData :: "string \<Rightarrow> bool" where
  "hasSensitiveData request = any_test True sensitiveDataPatterns request"

definition hasEncryption :: "string \<Rightarrow> bool" where
  "hasEncryption request = any_test True encryptionPatterns request"

definition hasLogging :: "string \<Rightarrow> bool" where
  "hasLogging request = any_test True loggingPatterns request"

definition sensitiveLoggingRisk :: "string \<Rightarrow> bool" where
  \<comment> \<open>the two expressions built from the pattern sources joined by \<open>|\<close>, with \<open>.*?\<close> between\<close>
  "sensitiveLoggingRisk request =
     (rx_test True (seqs [alts sensitiveDataPatterns, LazyStar Dot, alts loggingPatterns]) request \<or>
      rx_test True (seqs [alts loggingPatterns, LazyStar Dot, alts sensitiveDataPatterns]) request)"

definition hasErrorHandling :: "string \<Rightarrow> bool" where
  "hasErrorHandling request = any_test True errorHandlingPatterns request"

definition hasSecureHeaders :: "string \<Rightarrow> bool" where
  "hasSecureHeaders request = any_test True secureHeadersPatterns request"

definition rawInputSource :: "string \<Rightarrow> bool" where
  \<comment> \<open>the second conjunct of the SQL and XSS checks\<close>
  "rawInputSource lc =
     (str_includes lc ''$_'' \<or> str_includes lc ''req.param'' \<or> str_includes lc ''req.body'' \<or>
      str_includes lc ''req.query'' \<or> str_includes lc ''input'' \<or> str_includes lc ''user_input'')"

subsection \<open>The detectors, in the order of the source\<close>

datatype detector =
    CorsMissing | CorsPermissive | AuthMissing | InputValidation | SensitiveData
  | SensitiveLogging | ErrorHandling | SqlInjection | Xss | SecureHeaders
  | HardcodedCredentials | Idor | CommandInjection
  | RustUnsafe | RustRawPointer | RustFfi | RustUnwrap
  | JsEval | JsCookie | JsInnerHtml | JsStorage | JsPostMessage
  | PyDeserialize | PyDynamicImport | PyCsrf | PyDebug

definition detectors :: "detector list" where
  "detectors =
    [CorsMissing, CorsPermissive, AuthMissing, InputValidation, SensitiveData,
     SensitiveLogging, ErrorHandling, SqlInjection, Xss, SecureHeaders,
     HardcodedCredentials, Idor, CommandInjection,
     RustUnsafe, RustRawPointer, RustFfi, RustUnwrap,
     JsEval, JsCookie, JsInnerHtml, JsStorage, JsPostMessage,
     PyDeserialize, PyDynamicImport, PyCsrf, PyDebug]"

text \<open>The condition under which the block of a detector runs. It reads the text only.\<close>

fun fires :: "detector \<Rightarrow> string \<Rightarrow> bool" where
  "fires CorsMissing request = (hasApiEndpoints request \<and> \<not> hasCorsConfig request)"
| "fires CorsPermissive request = (hasApiEndpoints request \<and> permissiveCors request)"
| "fires AuthMissing request =
     (hasApiEndpoints request \<and> (\<not> hasAuth request \<and> hasApiEndpoints request))"
| "fires InputValidation request = (hasUserInput request \<and> \<not> hasValidation request)"
| "fires SensitiveData request = (hasSensitiveData request \<and> \<not> hasEncryption request)"
| "fires SensitiveLogging request =
     ((hasSensitiveData request \<and> hasLogging request) \<and> sensitiveLoggingRisk request)"
| "fires ErrorHandling request = (hasApiEndpoints request \<and> \<not> hasErrorHandling request)"
| "fires SqlInjection request =
     (let lc = toLowerCase request in
      (str_includes lc ''select'' \<or> str_includes lc ''insert'' \<or> str_includes lc ''update'' \<or>
       str_includes lc ''delete'') \<and> rawInputSource lc)"
| "fires Xss request =
     (let lc = toLowerCase request in
      (str_includes lc ''innerhtml'' \<or> str_includes lc ''document.write'') \<and> rawInputSource lc)"
| "fires SecureHeaders request =
     ((hasApiEndpoints request \<or> str_includes request ''http'' \<or> str_includes request ''express'') \<and>
      \<not> hasSecureHeaders request)"
| "fires HardcodedCredentials request =
     (let lc = toLowerCase request in
      (str_includes lc ''password'' \<or> str_includes lc ''apikey'' \<or> str_includes lc ''secret'' \<or>
       str_includes lc ''token'' \<or> str_includes lc ''pwd'' \<or> str_includes lc ''auth'') \<and>
      rx_test True credentialPattern lc)"
| "fires Idor request =
     (let lc = toLowerCase request in
      str_includes lc ''id'' \<and>
      (str_includes lc ''findbyid'' \<or> str_includes lc ''getbyid'' \<or>
       str_includes lc ''find_by_id'' \<or> str_includes lc ''get_by_id''))"
| "fires CommandInjection request =
     (let lc = toLowerCase request in
      (str_includes lc ''exec('' \<or> str_includes lc ''spawn('' \<or> str_includes lc ''system('' \<or>
       str_includes lc ''eval('' \<or> str_includes lc ''command('' \<or>
       str_includes lc ''process::command'' \<or> str_includes lc ''shell('' \<or>
       str_includes lc ''std::process'') \<and>
      (str_includes lc ''$_'' \<or> str_includes lc ''req.param'' \<or> str_includes lc ''req.body'' \<or>
       str_includes lc ''req.query'' \<or> str_includes lc ''args'' \<or> str_includes lc ''input'' \<or>
       str_includes lc ''user_input'' \<or> str_includes lc ''var'' \<or> str_includes lc ''param''))"
| "fires RustUnsafe request =
     (let lc = toLowerCase request in
      security_language request = Rust \<and>
      (str_includes lc ''unsafe '' \<or> str_includes lc ''unsafe{''))"
| "fires RustRawPointer request =
     (let lc = toLowerCase request in
      security_language request = Rust \<and>
      (str_includes lc ''*mut '' \<or> str_includes lc ''*const ''))"
| "fires RustFfi request =
     (let lc = toLowerCase request in
      security_language request = Rust \<and>
      (str_includes lc (''extern '' @ [CHR 0x22] @ ''c'' @ [CHR 0x22]) \<or>
       str_includes lc ''#[no_mangle]''))"
| "fires RustUnwrap request =
     (let lc = toLowerCase request in
      security_language request = Rust \<and>
      (str_includes lc ''.unwrap()'' \<or> str_includes lc ''panic!''))"
| "fires JsEval request =
     (let lc = toLowerCase request in
      security_language request = JavaScript \<and>
      (str_includes lc ''eval('' \<or> str_includes lc ''new function(''))"
| "fires JsCookie request =
     (let lc = toLowerCase request in
      security_language request = JavaScript \<and> str_includes lc ''document.cookie'')"
| "fires JsInnerHtml request =
     (security_language request = JavaScript \<and>
      rx_test True (frontendSecurityPatterns ! 0) (toLowerCase request))"
| "fires JsStorage request =
     (security_language request = JavaScript \<and>
      rx_test True (frontendSecurityPatterns ! 1) (toLowerCase request))"
| "fires JsPostMessage request =
     (security_language request = JavaScript \<and>
      rx_test True (frontendSecurityPatterns ! 2) (toLowerCase request))"
| "fires PyDeserialize request =
     (let lc = toLowerCase request in
      security_language request = Python \<and>
      (str_includes lc ''pickle.loads'' \<or> str_includes lc ''marshal.loads''))"
| "fires PyDynamicImport request =
     (let lc = toLowerCase request in
      security_language request = Python \<and>
      (str_includes lc ''__import__'' \<or> str_includes lc ''importlib''))"
| "fires PyCsrf request =
     (let lc = toLowerCase request in
      security_language request = Python \<and>
      (str_includes lc ''django'' \<or> str_includes lc ''flask'') \<and> \<not> str_includes lc ''csrf'')"
| "fires PyDebug request =
     (let lc = toLowerCase request in
      security_language request = Python \<and>
      (str_includes lc ''django'' \<or> str_includes lc ''flask'') \<and>
      (str_includes lc ''debug'' \<and> str_includes lc ''true''))"

text \<open>
  The assignment to \<open>riskLevel\<close> in the block of a detector, as a function of the current
  level: \<open>riskLevel === 'Low' ? 'Medium' : riskLevel\<close> and its variants.
\<close>

definition low_to :: "RiskLevel \<Rightarrow> RiskLevel \<Rightarrow> RiskLevel" where
  \<comment> \<open>\<open>riskLevel === 'Low' ? l : riskLevel\<close>\<close>
  "low_to l cur = (if cur = Low then l else cur)"

fun escalate :: "detector \<Rightarrow> RiskLevel \<Rightarrow> RiskLevel" where
  "escalate AuthMissing cur = (if cur = Low then Medium else High)"
| "escalate SensitiveData cur = (if cur = Low then High else Critical)"
| "escalate SqlInjection cur = High"
| "escalate Xss cur = (if cur = High then Critical else High)"
| "escalate CommandInjection cur = Critical"
| "escalate RustUnsafe cur = (if cur = Low then High else Critical)"
| "escalate JsEval cur = low_to High cur"
| "escalate PyDeserialize cur = High"
| "escalate d cur = low_to Medium cur"

text \<open>What the block pushes on \<open>threats\<close> and on \<open>recommendations\<close>.\<close>

fun new_threats :: "detector \<Rightarrow> string \<Rightarrow> string list" where
  "new_threats CorsMissing request = [''API endpoints detected without CORS protection'']"
| "new_threats CorsPermissive request =
     [''Overly permissive CORS configuration (Access-Control-Allow-Origin: *)'']"
| "new_threats AuthMissing request = [''API endpoints may lack proper authentication'']"
| "new_threats InputValidation request =
     [''User input processing without obvious validation/sanitization'']"
| "new_threats SensitiveData request =
     [''Handling sensitive data without obvious encryption/protection'']"
| "new_threats SensitiveLogging request = [''Potential logging of sensitive information'']"
| "new_threats ErrorHandling request = [''API endpoints without proper error handling detected'']"
| "new_threats SqlInjection request = [''Potential SQL injection vulnerability detected'']"
| "new_threats Xss request = [''Potential Cross-site Scripting (XSS) vulnerability detected'']"
| "new_threats SecureHeaders request = [''Security headers may be missing from HTTP responses'']"
| "new_threats HardcodedCredentials request =
     [''Potential hardcoded credentials or secrets detected'']"
| "new_threats Idor request =
     [''Potential Insecure Direct Object Reference (IDOR) vulnerability'']"
| "new_threats CommandInjection request = [''Potential command injection vulnerability detected'']"
| "new_threats RustUnsafe request =
     [''Use of unsafe Rust code detected - potential memory safety issues'']"
| "new_threats RustRawPointer request =
     [''Use of raw pointers in Rust - potential memory safety issues'']"
| "new_threats RustFfi request =
     [''Foreign Function Interface (FFI) usage detected - potential safety issues'']"
| "new_threats RustUnwrap request =
     [''Unchecked result/option usage with unwrap() or panic! - potential runtime failures'']"
| "new_threats JsEval request = [''Use of eval() or dynamic function creation - security risk'']"
| "new_threats JsCookie request =
     [''Direct cookie manipulation - potential cookie security issues'']"
| "new_threats JsInnerHtml request =
     [''Using innerHTML without proper sanitization - potential XSS risk'']"
| "new_threats JsStorage request =
     (if hasSensitiveData request
      then [''Potential storage of sensitive data in localStorage/sessionStorage''] else [])"
| "new_threats JsPostMessage request =
     (if \<not> str_includes (toLowerCase request) ''origin''
      then [''Using postMessage without origin validation''] else [])"
| "new_threats PyDeserialize request =
     [''Use of unsafe deserialization (pickle/marshal) - security risk'']"
| "new_threats PyDynamicImport request = [''Dynamic imports - potential code injection vector'']"
| "new_threats PyCsrf request = [''Web framework detected without obvious CSRF protection'']"
| "new_threats PyDebug request = [''Debug mode may be enabled in a web application'']"

fun new_recommendations :: "detector \<Rightarrow> string \<Rightarrow> string list" where
  "new_recommendations CorsMissing request =
     [''Implement CORS policy to restrict API access to trusted domains'']"
| "new_recommendations CorsPermissive request =
     [''Restrict CORS to specific trusted origins rather than using wildcard *'']"
| "new_recommendations AuthMissing request =
     [''Implement authentication for all API endpoints that access sensitive data'']"
| "new_recommendations InputValidation request =
     [''Implement input validation and sanitization for all user-provided data'']"
| "new_recommendations SensitiveData request =
     [''Implement encryption for sensitive data both at rest and in transit'']"
| "new_recommendations SensitiveLogging request =
     [''Ensure sensitive data is redacted or excluded from logs'']"
| "new_recommendations ErrorHandling request =
     [''Implement proper error handling to avoid exposing sensitive stack traces'']"
| "new_recommendations SecureHeaders request =
     [''Implement security headers (CSP, HSTS, etc.) or use middleware like helmet.js'']"
| "new_recommendations JsInnerHtml request =
     [''Use textContent instead of innerHTML or sanitize HTML content'']"
| "new_recommendations JsStorage request =
     (if hasSensitiveData request
      then [''Avoid storing sensitive data in browser storage mechanisms''] else [])"
| "new_recommendations JsPostMessage request =
     (if \<not> str_includes (toLowerCase request) ''origin''
      then [''Always validate origin when receiving postMessage data''] else [])"
| "new_recommendations PyCsrf request =
     [''Ensure CSRF protection is enabled in your web framework'']"
| "new_recommendations PyDebug request = [''Disable debug mode in production environments'']"
| "new_recommendations d request = []"

definition detector_step :: "string \<Rightarrow> detector \<Rightarrow> sec_state \<Rightarrow> sec_state" where
  "detector_step request d st =
     (if fires d request
      then \<lparr>riskLevel = escalate d (riskLevel st),
            threats = threats st @ new_threats d request,
            recommendations = recommendations st @ new_recommendations d request\<rparr>
      else st)"

definition initial_state :: sec_state where
  "initial_state = \<lparr>riskLevel = Low, threats = [], recommendations = []\<rparr>"

definition run_detectors :: "detector list \<Rightarrow> string \<Rightarrow> sec_state \<Rightarrow> sec_state" where
  "run_detectors ds request st = fold (detector_step request) ds st"

text \<open>The risk level before the first detector and after each one.\<close>

fun risk_trace :: "detector list \<Rightarrow> string \<Rightarrow> sec_state \<Rightarrow> RiskLevel list" where
  "risk_trace [] request st = [riskLevel st]"
| "risk_trace (d # ds) request st = riskLevel st # risk_trace ds request (detector_step request d st)"

subsection \<open>Recommendations added from the threats found, fallbacks, confidence\<close>

definition threat_recommendations :: "(string \<times> string) list" where
  "threat_recommendations =
    [(''Potential SQL injection vulnerability detected'',
      ''Use parameterized queries or an ORM instead of string concatenation''),
     (''Potential Cross-site Scripting (XSS) vulnerability detected'',
      ''Use content security policy (CSP) and escape output before rendering''),
     (''Potential hardcoded credentials or secrets detected'',
      ''Store sensitive information in environment variables or a secure vault''),
     (''Potential Insecure Direct Object Reference (IDOR) vulnerability'',
      ''Implement proper access control checks before serving data''),
     (''Potential command injection vulnerability detected'',
      ''Avoid using exec/eval with user input; use allowlists for commands if necessary''),
     (''Use of unsafe Rust code detected - potential memory safety issues'',
      ''Minimize unsafe blocks and ensure they are properly documented and reviewed''),
     (''Use of raw pointers in Rust - potential memory safety issues'',
      ''Prefer safe abstractions like references and smart pointers over raw pointers''),
     (''Foreign Function Interface (FFI) usage detected - potential safety issues'',
      ''Ensure all FFI code is carefully reviewed and properly isolated''),
     (''Unchecked result/option usage with unwrap() or panic! - potential runtime failures'',
      ''Replace .unwrap() with proper error handling using match, if let, or ?'')]"

definition add_threat_recommendations :: "string list \<Rightarrow> string list \<Rightarrow> string list" where
  "add_threat_recommendations ths recs =
     recs @ map snd (filter (\<lambda>(t, r). t \<in> set ths) threat_recommendations)"

definition confidence :: "string \<Rightarrow> real" where
  "confidence request =
     (let c0 = 0.6;
          c1 = (if security_language request \<noteq> Unknown then 0.7 else c0)
      in if length request < 100 then c1 - 0.2
         else if length request > 1000 then c1 + 0.1
         else c1)"

definition finish_report :: "string \<Rightarrow> sec_state \<Rightarrow> security_report" where
  "finish_report request st =
     (let recs = add_threat_recommendations (threats st) (recommendations st);
          ths = (if length (threats st) = 0
                 then threats st @ [''No obvious security vulnerabilities detected'']
                 else threats st);
          recs' = (if length recs = 0
                   then recs @ [''Follow security best practices for your framework/language'']
                   else recs)
      in \<lparr>riskLevel = riskLevel st, threats = ths, recommendations = recs',
          confidenceLevel = confidence request\<rparr>)"

definition localSecurityAnalysis :: "string \<Rightarrow> security_report" where
  "localSecurityAnalysis request =
     finish_report request (run_detectors detectors request initial_state)"


section \<open>The eco rule engine: \<open>localEcoAnalysis\<close>\<close>

record eco_lists =
  issues :: "string list"
  suggestions :: "string list"

record eco_state = eco_lists +
  baseScore :: int

record eco_details =
  codeSize :: nat
  lineCount :: nat
  loopCount :: nat
  issueCount :: nat
  language_name :: string
  redundancies :: nat
  aiIntegration :: bool

record eco_report = eco_lists +
  ecoScore :: int
  details :: eco_details

text \<open>A number inside a template literal.\<close>

fun show_nat :: "nat \<Rightarrow> string" where
  "show_nat n = (if n < 10 then [digit_chars ! n]
                 else show_nat (n div 10) @ [digit_chars ! (n mod 10)])"

declare show_nat.simps [simp del]

fun join_with :: "string \<Rightarrow> string list \<Rightarrow> string" where
  "join_with sep [] = []"
| "join_with sep [x] = x"
| "join_with sep (x # xs) = x @ sep @ join_with sep xs"

definition report :: "string \<Rightarrow> string \<Rightarrow> int \<Rightarrow> eco_state \<Rightarrow> eco_state" where
  \<comment> \<open>a block that pushes an issue and a suggestion and changes the score\<close>
  "report issue suggestion delta st =
     st\<lparr>issues := issues st @ [issue], suggestions := suggestions st @ [suggestion],
        baseScore := baseScore st + delta\<rparr>"

definition suggest :: "string \<Rightarrow> int \<Rightarrow> eco_state \<Rightarrow> eco_state" where
  \<comment> \<open>a block that pushes a suggestion only and changes the score\<close>
  "suggest suggestion delta st =
     st\<lparr>suggestions := suggestions st @ [suggestion], baseScore := baseScore st + delta\<rparr>"

subsection \<open>Baseline\<close>

definition initial_baseScore :: "language \<Rightarrow> int" where
  "initial_baseScore lang =
     (if lang = Rust \<or> lang = Cpp then 75
      else if lang = Python then 65
      else if lang = JavaScript then 68
      else if lang = Java then 72
      else 70)"

subsection \<open>Redundant blocks\<close>

definition commentPattern :: regex where
  \<comment> \<open>a line comment, a block comment (lazy), a hash comment\<close>
  "commentPattern =
     alts [Seq (Lit ''//'') (Star Dot), seqs [Lit ''/*'', LazyStar AnyChar, Lit ''*/''],
           Seq (Lit ''#'') (Star Dot)]"

definition cleanedLines :: "string list \<Rightarrow> string list" where
  "cleanedLines lines =
     filter (\<lambda>line. length line > 0) (map (\<lambda>line. remove_all False commentPattern (trim line)) lines)"

definition blocks_of_three :: "string list \<Rightarrow> string list" where
  \<comment> \<open>\<open>cleanedLines.slice(i, i + 3).join('\n')\<close> for \<open>i\<close> from 0 while \<open>i < length - 2\<close>\<close>
  "blocks_of_three cl =
     map (\<lambda>i. join_with [CHR 0x0A] (take 3 (drop i cl))) [0 ..< length cl - 2]"

fun count_repeats :: "string list \<Rightarrow> string list \<Rightarrow> nat" where
  \<comment> \<open>the second argument is \<open>lineSet\<close>\<close>
  "count_repeats [] lineSet = 0"
| "count_repeats (b # bs) lineSet =
     (if b \<in> set lineSet then Suc (count_repeats bs lineSet)
      else count_repeats bs (b # lineSet))"

definition redundancyCount :: "string \<Rightarrow> nat" where
  "redundancyCount code = count_repeats (blocks_of_three (cleanedLines (split_lines code))) []"

definition check_redundancy :: "string \<Rightarrow> eco_state \<Rightarrow> eco_state" where
  "check_redundancy code st =
     (let n = redundancyCount code in
      if n > 0
      then report (''Detected '' @ show_nat n @ '' blocks of potentially redundant code'')
             ''Extract repeated code blocks into reusable functions or components''
             (- min 15 (int n * 3)) st
      else st)"

subsection \<open>Duplicate function names\<close>

definition functionPatterns :: "regex list" where
  "functionPatterns =
    [seqs [Lit ''function'', Plus Sp, Group (Plus Wd)],
     seqs [Lit ''def'', Plus Sp, Group (Plus Wd)],
     alts [Lit ''public'', Lit ''private'',
           seqs [Lit ''protected'', LazyStar Dot, Plus Sp, Group (Plus Wd), Star Sp, Lit ''('']],
     seqs [Lit ''fn'', Plus Sp, Group (Plus Wd)]]"

definition captured_names :: "string \<Rightarrow> string list" where
  \<comment> \<open>the truthy \<open>match[1]\<close> of every match of every pattern, in the order of the two loops\<close>
  "captured_names code =
     concat (map (\<lambda>p. concat (map (\<lambda>(m, g). case g of None \<Rightarrow> [] | Some w \<Rightarrow> if w = [] then [] else [w])
                                 (match_all False p code)))
                 functionPatterns)"

fun note_name :: "string \<Rightarrow> string list \<times> string list \<Rightarrow> string list \<times> string list" where
  \<comment> \<open>the pair is (\<open>functionNames\<close>, \<open>duplicateFunctions\<close>)\<close>
  "note_name w (names, dups) =
     (if w \<in> set names then (names, if w \<in> set dups then dups else dups @ [w])
      else (names @ [w], dups))"

definition duplicateFunctions :: "string \<Rightarrow> string list" where
  "duplicateFunctions code = snd (fold note_name (captured_names code) ([], []))"

definition check_duplicates :: "string \<Rightarrow> eco_state \<Rightarrow> eco_state" where
  "check_duplicates code st =
     (let n = length (duplicateFunctions code) in
      if n > 0
      then report (''Found '' @ show_nat n @ '' potentially duplicated function names'')
             ''Rename or consolidate functions with similar names and purposes''
             (- (int n * 2)) st
      else st)"

subsection \<open>AI integration\<close>

definition aiPatterns :: "regex list" where
  "aiPatterns =
    [words [''openai'', ''gpt'', ''llm'', ''huggingface'', ''ai client'', ''machine learning'',
            ''neural network'', ''transformer''],
     words [''tensorflow'', ''pytorch'', ''keras'', ''model.predict'', ''embedding'', ''token'',
            ''bert'', ''stable diffusion'']]"

definition hasAI :: "string \<Rightarrow> bool" where
  "hasAI code = any_test True aiPatterns code"

definition aiEfficient :: "string \<Rightarrow> bool" where
  "aiEfficient code = rx_test True (words [''cache'', ''memoize'', ''throttle'', ''batch'']) code"

definition localModelUsage :: "string \<Rightarrow> bool" where
  "localModelUsage code =
     rx_test True (words [''local_model'', ''onnx'', ''tflite'', ''quantized'', ''edge'']) code"

definition remoteApiPattern :: regex where
  \<comment> \<open>\<open>api\<close>, at most one of white space, \<open>-\<close>, \<open>_\<close>, then \<open>key\<close>; or one of five words\<close>
  "remoteApiPattern =
     alts [seqs [Lit ''api'', Opt (Cls (space_chars @ ''-_'')), Lit ''key''], Lit ''token'',
           Lit ''secret'', Lit ''endpoint'', Lit ''openai.com'', Lit ''api.anthropic'']"

definition check_ai_efficiency :: "string \<Rightarrow> eco_state \<Rightarrow> eco_state" where
  "check_ai_efficiency code st =
     (if aiEfficient code
      then suggest ''Good: Found caching or batching for AI operations'' 5 st
      else report ''AI integration detected without obvious efficiency measures''
             ''Implement caching, batching, or throttling for AI API calls'' (- 8) st)"

definition check_ai_locality :: "string \<Rightarrow> eco_state \<Rightarrow> eco_state" where
  "check_ai_locality code st =
     (if localModelUsage code
      then suggest ''Good: Using local/edge AI models which can reduce network overhead'' 3 st
      else if rx_test True remoteApiPattern code
      then report ''Using remote AI APIs which can increase carbon footprint''
             ''Consider using smaller, local models for less intensive tasks'' (- 5) st
      else st)"

definition check_ai :: "string \<Rightarrow> eco_state \<Rightarrow> eco_state" where
  "check_ai code st =
     (if hasAI code then check_ai_locality code (check_ai_efficiency code st) else st)"

subsection \<open>Loops, recursion, concatenation, cryptography, media\<close>

definition loopPattern :: regex where
  "loopPattern =
     alts [seqs [Lit ''for'', Star Sp, Lit ''('', Star (NCls '')''), Lit '')''],
           seqs [Lit ''while'', Star Sp, Lit ''('', Star (NCls '')''), Lit '')''],
           Lit ''forEach'', Lit ''map'', Lit ''LOOP'', seqs [Lit ''do'', Star Sp, Lit ''{'']]"

definition loopMatches :: "string \<Rightarrow> nat" where
  "loopMatches code = match_count False loopPattern code"

definition blockStartPattern :: regex where
  "blockStartPattern =
     alts [seqs [Lit ''for'', Star Sp, Lit ''(''], seqs [Lit ''while'', Star Sp, Lit ''(''],
           seqs [Lit ''{'', Star Sp, EndInput]]"

fun nested_step :: "string \<Rightarrow> string list \<times> nat \<Rightarrow> string list \<times> nat" where
  \<comment> \<open>one line of the loop; the pair is (\<open>blockStarts\<close> with its top first, \<open>nestedLoopCount\<close>)\<close>
  "nested_step line (blockStarts, n) =
     (let bs = (if rx_test False blockStartPattern line then line # blockStarts
                else if str_includes line ''}'' then tl blockStarts
                else blockStarts)
      in (bs, if length (filter (\<lambda>block. rx_test False (words [''for'', ''while'']) block) bs) > 1
              then Suc n else n))"

definition nestedLoopCount :: "string \<Rightarrow> nat" where
  "nestedLoopCount code = snd (fold nested_step (split_lines code) ([], 0))"

definition check_nested_loops :: "string \<Rightarrow> eco_state \<Rightarrow> eco_state" where
  "check_nested_loops code st =
     (let n = nestedLoopCount code in
      if n > 0
      then report (show_nat n @ '' nested loops detected (potential O(n'' @ [CHR 0xB2] @
                   '') or worse time complexity)'')
             ''Consider refactoring nested loops to reduce time complexity'' 0 st
      else st)"

definition recursionPatterns :: "regex list" where
  "recursionPatterns =
    [seqs [Lit ''function'', Plus Sp, Group (Plus Wd), Star (NCls ''{''), Lit ''{'',
           Star AnyChar, BackRef, Star Sp, Lit ''(''],
     seqs [Lit ''def'', Plus Sp, Group (Plus Wd), Star (NCls '':''), Lit '':'',
           Star AnyChar, BackRef, Star Sp, Lit ''(''],
     seqs [Lit ''fn'', Plus Sp, Group (Plus Wd), Star (NCls ''{''), Lit ''{'',
           Star AnyChar, BackRef, Star Sp, Lit ''('']]"

definition check_recursion :: "string \<Rightarrow> eco_state \<Rightarrow> eco_state" where
  "check_recursion code st =
     (if any_test False recursionPatterns code
      then report ''Recursive function calls detected''
             ''Ensure recursive functions have proper termination conditions'' 0 st
      else st)"

definition check_concatenations :: "string \<Rightarrow> eco_state \<Rightarrow> eco_state" where
  "check_concatenations code st =
     (if match_count False (seqs [Lit ''+'', Star Sp, Lit [CHR 0x22]]) code > 5
      then report ''Multiple string concatenations found''
             ''Use string templating or builder pattern for multiple concatenations'' 0 st
      else st)"

definition check_crypto :: "string \<Rightarrow> eco_state \<Rightarrow> eco_state" where
  "check_crypto code st =
     (if rx_test True (words [''crypto'', ''hash'', ''bcrypt'', ''scrypt'', ''mining'']) code
      then report ''Potentially energy-intensive cryptographic operations detected''
             ''Ensure cryptographic operations are used sparingly and efficiently'' (- 7) st
      else st)"

definition check_media :: "string \<Rightarrow> eco_state \<Rightarrow> eco_state" where
  "check_media code st =
     (if rx_test True (words [''image'', ''video'', ''audio'', ''canvas'', ''media'', ''transcode'',
                              ''render'', ''animation'']) code \<and>
         rx_test True (words [''process'', ''transform'', ''filter'', ''load'', ''manipulation'']) code
      then report ''Media processing detected - potentially high energy consumption''
             ''Implement lazy loading and optimize media processing operations'' (- 6) st
      else st)"


subsection \<open>Language-specific checks\<close>

definition js_dom_iteration :: "string \<Rightarrow> eco_state \<Rightarrow> eco_state" where
  "js_dom_iteration code st =
     (if str_includes code ''document.querySelectorAll'' \<and>
         rx_test False (words [''for'', ''forEach'', ''map'']) code
      then report ''DOM collection iteration pattern detected''
             ''Consider using more efficient DOM traversal methods'' 0 st
      else st)"

definition js_dom_operations :: "string \<Rightarrow> eco_state \<Rightarrow> eco_state" where
  "js_dom_operations code st =
     (let domOperations = match_count False
            (words [''document.createElement'', ''appendChild'', ''innerHTML'', ''getElementById'',
                    ''querySelector'']) code
      in if domOperations > 10
         then report ''High number of DOM operations detected''
                ''Batch DOM updates or consider using a virtual DOM approach'' (- 8) st
         else st)"

definition js_react_rerenders :: "string \<Rightarrow> eco_state \<Rightarrow> eco_state" where
  "js_react_rerenders code st =
     (if str_includes code ''React'' \<or> str_includes code ''useState''
      then (let stateUpdates = match_count False (words [''setState'', ''useState'', ''useReducer'']) code;
                memoization = match_count False (words [''useMemo'', ''React.memo'', ''useCallback'']) code
            in if stateUpdates > 5 \<and> memoization = 0
               then report
                      ''Multiple state updates without memoization could cause excessive re-renders''
                      ''Use React.memo, useMemo, or useCallback to prevent unnecessary re-renders''
                      (- 5) st
               else st)
      else st)"

definition py_list_append_pattern :: regex where
  \<comment> \<open>\<open>/for\s+.*\s+in\s+.*:\s*\n\s*.*\.append/\<close>\<close>
  "py_list_append_pattern =
     seqs [Lit ''for'', Plus Sp, Star Dot, Plus Sp, Lit ''in'', Plus Sp, Star Dot, Lit '':'',
           Star Sp, Lit [CHR 0x0A], Star Sp, Star Dot, Lit ''.append'']"

definition py_list_operations :: "string \<Rightarrow> eco_state \<Rightarrow> eco_state" where
  "py_list_operations code st =
     (if str_includes code ''+= ['' \<or> rx_test False py_list_append_pattern code
      then report ''Inefficient list concatenation pattern detected''
             ''Use list comprehensions or extend() instead of append in loops'' (- 5) st
      else st)"

definition py_gil :: "string \<Rightarrow> eco_state \<Rightarrow> eco_state" where
  "py_gil code st =
     (if str_includes code ''threading'' \<and> str_includes code ''while True''
      then report ''Potential CPU-bound thread blocking due to GIL''
             ''Consider using multiprocessing instead of threading for CPU-bound tasks'' (- 10) st
      else st)"

definition py_pandas :: "string \<Rightarrow> eco_state \<Rightarrow> eco_state" where
  "py_pandas code st =
     (if str_includes code ''pandas'' \<or> str_includes code ''pd.''
      then (let inefficientPandas =
                  rx_test True (alts [Lit ''apply'', Lit ''iterrows'',
                                      seqs [Lit ''for'', Star Dot, Lit ''row in'']]) code
            in if inefficientPandas
               then report ''Inefficient pandas operations detected (iterative processing)''
                      ''Use vectorized operations instead of iterative row processing'' (- 7) st
               else st)
      else st)"

definition java_string_concat :: "string \<Rightarrow> eco_state \<Rightarrow> eco_state" where
  "java_string_concat code st =
     (if match_count False (seqs [Lit ''String'', Star Dot, Lit ''+='']) code > 3 \<and>
         \<not> str_includes code ''StringBuilder''
      then report ''Inefficient String concatenation with += operator''
             ''Use StringBuilder for string concatenation in loops'' (- 7) st
      else st)"

definition java_object_creation :: "string \<Rightarrow> eco_state \<Rightarrow> eco_state" where
  "java_object_creation code st =
     (let newObjects = match_count False (seqs [Lit ''new'', Plus Sp, Plus Wd]) code
      in if newObjects > 20
         then report ''High rate of object creation detected''
                ''Consider object pooling or reuse patterns'' (- 5) st
         else st)"

definition java_streams :: "string \<Rightarrow> eco_state \<Rightarrow> eco_state" where
  "java_streams code st =
     (if str_includes code ''Collection'' \<or> str_includes code ''List<''
      then (let usesStreams = str_includes code ''stream()''
            in if \<not> usesStreams \<and>
                  rx_test False (seqs [Lit ''for'', Star Sp, Lit ''('', Star (NCls '')''), Lit '':'']) code
               then suggest ''Consider using Stream API for more efficient collection processing''
                      (- 3) st
               else st)
      else st)"

definition rust_to_string :: "string \<Rightarrow> eco_state \<Rightarrow> eco_state" where
  "rust_to_string code st =
     (if str_includes code ''to_string'' \<and> rx_test False (words [''for'', ''while'']) code
      then report ''Repeated to_string() calls in loops''
             ''Use string references (&str) instead of String allocations where possible'' (- 3) st
      else st)"

definition rust_clone :: "string \<Rightarrow> eco_state \<Rightarrow> eco_state" where
  "rust_clone code st =
     (if match_count False (Lit ''.clone()'') code > 5
      then report ''Multiple clone() calls detected - potential memory inefficiency''
             ''Consider using references or move semantics to avoid cloning'' (- 4) st
      else st)"

definition rust_memory_safety :: "string \<Rightarrow> eco_state \<Rightarrow> eco_state" where
  "rust_memory_safety code st =
     (if \<not> str_includes code ''unsafe'' \<and> str_includes code ''&mut ''
      then suggest ''Good use of Rust's memory safety features'' 5 st
      else st)"

definition rust_async :: "string \<Rightarrow> eco_state \<Rightarrow> eco_state" where
  "rust_async code st =
     (if str_includes code ''async'' \<and> str_includes code ''await''
      then (if \<not> str_includes code ''join'' \<and> match_count False (Lit ''.await'') code > 3
            then report ''Multiple sequential await operations could be parallelized''
                   ''Use join! macro to run async operations concurrently'' (- 3) st
            else st)
      else st)"

definition cpp_memory_leak :: "string \<Rightarrow> eco_state \<Rightarrow> eco_state" where
  "cpp_memory_leak code st =
     (let allocations = match_count False (alts [Lit ''malloc('', seqs [Lit ''new'', Plus Sp, Plus Wd]]) code;
          frees = match_count False (alts [Lit ''free('', Seq (Lit ''delete'') (Plus Sp)]) code
      in if allocations > frees + 2
         then report ''Potential memory leak: more allocations than deallocations''
                ''Ensure all allocated memory is properly freed'' (- 15) st
         else st)"

definition cpp_large_buffer :: "string \<Rightarrow> eco_state \<Rightarrow> eco_state" where
  "cpp_large_buffer code st =
     (if rx_test False (seqs [Lit ''malloc('', Star Sp, Plus Wd, Star Sp, Lit ''*'', Star Sp,
                              Lit ''sizeof'']) code
      then report ''Large buffer allocation detected''
             ''Consider using dynamic data structures or memory-mapped files for large data''
             (- 5) st
      else st)"

definition check_language_specific :: "language \<Rightarrow> string \<Rightarrow> eco_state \<Rightarrow> eco_state" where
  "check_language_specific lang code st =
     (if lang = JavaScript
      then js_react_rerenders code (js_dom_operations code (js_dom_iteration code st))
      else if lang = Python
      then py_pandas code (py_gil code (py_list_operations code st))
      else if lang = Java
      then java_streams code (java_object_creation code (java_string_concat code st))
      else if lang = Rust
      then rust_async code (rust_memory_safety code (rust_clone code (rust_to_string code st)))
      else if lang = Cpp
      then cpp_large_buffer code (cpp_memory_leak code st)
      else st)"

definition check_string_concat :: "language \<Rightarrow> string \<Rightarrow> eco_state \<Rightarrow> eco_state" where
  "check_string_concat lang code st =
     (if match_count False (Lit ''+='') code > 5 \<and>
         rx_test False (words [''string'', ''String'', ''str'', ''text'', ''Text'']) code
      then report ''Inefficient string concatenation detected''
             (if lang = JavaScript
              then ''Use array.join() or template literals instead of string concatenation''
              else if lang = Java
              then ''Use StringBuilder instead of String concatenation in loops''
              else if lang = Python
              then ''Use '' @ [CHR 0x22, CHR 0x22] @ ''.join(list) instead of string += in loops''
              else if lang = Cpp
              then ''Use std::stringstream or std::string::append() instead of += operator''
              else ''Use string builder pattern for better memory efficiency'')
             0 st
      else st)"

subsection \<open>The checks in the order of the source, the score, the report\<close>

definition run_checks :: "string \<Rightarrow> eco_state" where
  "run_checks code =
     (let language = eco_language code;
          st0 = \<lparr>issues = [], suggestions = [], baseScore = initial_baseScore language\<rparr>;
          st1 = check_redundancy code st0;
          st2 = check_duplicates code st1;
          st3 = check_ai code st2;
          st4 = check_nested_loops code st3;
          st5 = check_recursion code st4;
          st6 = check_concatenations code st5;
          st7 = check_crypto code st6;
          st8 = check_media code st7;
          st9 = check_language_specific language code st8
      in check_string_concat language code st9)"

text \<open>
  The score before clamping (\<open>ecoScore\<close> from its initialisation with \<open>baseScore\<close> to
  the large-file check), with the issues and suggestions at that point.
\<close>

definition unclamped :: "string \<Rightarrow> eco_report" where
  "unclamped code =
     (let st = run_checks code;
          nested = nestedLoopCount code;
          lines = split_lines code;
          ecoScore0 = baseScore st;
          ecoScore1 = ecoScore0 - min 20 (int (length (issues st)) * 5);
          ecoScore2 = (if nested > 0 then ecoScore1 - min 15 (int nested * 5) else ecoScore1);
          ecoScore3 = (if length code > 5000 then ecoScore2 - 3 else ecoScore2);
          ecoScore4 = (if length code > 10000 then ecoScore3 - 5 else ecoScore3);
          dts = \<lparr>codeSize = length code, lineCount = length lines, loopCount = loopMatches code,
                  issueCount = 0, language_name = eco_language_name (eco_language code),
                  redundancies = redundancyCount code, aiIntegration = hasAI code\<rparr>
      in if length lines > 500
         then \<lparr>issues = issues st @ [''Extremely large file detected (over 500 lines)''],
               suggestions = suggestions st @
                 [''Break down large files into smaller, more focused modules''],
               ecoScore = ecoScore4 - 5, details = dts\<rparr>
         else \<lparr>issues = issues st, suggestions = suggestions st, ecoScore = ecoScore4,
               details = dts\<rparr>)"

definition generic_suggestion :: "language \<Rightarrow> string" where
  "generic_suggestion lang =
     (if lang = JavaScript
      then ''Use modern JS features like array methods, async/await, and avoid jQuery DOM manipulation''
      else if lang = Python
      then ''Follow PEP 8 style guide and use list comprehensions, generators, and context managers''
      else if lang = Java
      then ''Use Stream API, try-with-resources, and follow effective Java patterns''
      else if lang = Cpp
      then ''Use RAII pattern, smart pointers, and prefer std algorithms over raw loops''
      else if lang = Rust
      then ''Leverage Rust's ownership system and avoid unnecessary memory allocations''
      else ''Follow language-specific best practices for performance optimization'')"

definition localEcoAnalysis :: "string \<Rightarrow> eco_report" where
  "localEcoAnalysis code =
     (let r0 = unclamped code;
          r1 = r0\<lparr>ecoScore := max 35 (min 95 (ecoScore r0))\<rparr>;
          r2 = (if length (suggestions r1) = 0
                then r1\<lparr>suggestions := suggestions r1 @ [generic_suggestion (eco_language code)]\<rparr>
                else r1);
          r3 = (if length (issues r2) = 0
                then r2\<lparr>issues := issues r2 @ [''No obvious efficiency issues detected''],
                        ecoScore := ecoScore r2 + 5\<rparr>
                else r2)
      in r3\<lparr>details := (details r3)\<lparr>issueCount := length (issues r3)\<rparr>\<rparr>)"


section \<open>The embedding generator: \<open>generateTextEmbedding\<close>\<close>

definition normalizeValue :: "real \<Rightarrow> real \<Rightarrow> real \<Rightarrow> real" where
  \<comment> \<open>\<open>2 * ((value - min) / (max - min || 1)) - 1\<close>\<close>
  "normalizeValue v mn mx = 2 * ((v - mn) / (if mx - mn = 0 then 1 else mx - mn)) - 1"

definition or_one :: "nat \<Rightarrow> real" where
  \<comment> \<open>\<open>n || 1\<close> for a count\<close>
  "or_one n = (if n = 0 then 1 else real n)"

definition text_words :: "string \<Rightarrow> string list" where
  \<comment> \<open>\<open>text.split(/\s+/).filter((w) => w.length > 0)\<close>\<close>
  "text_words text = filter (\<lambda>w. length w > 0) (split_rx False (Plus Sp) [] text)"

definition wordLengthAvg :: "string \<Rightarrow> real" where
  "wordLengthAvg text =
     (let wordCount = length (text_words text) in
      if wordCount > 0
      then real (foldl (\<lambda>sum word. sum + length word) 0 (text_words text)) / real wordCount
      else 0)"

definition sentenceCount :: "string \<Rightarrow> nat" where
  \<comment> \<open>\<open>text.split(/[.!?]/).filter((s) => s.trim().length > 0).length\<close>\<close>
  "sentenceCount text =
     length (filter (\<lambda>s. length (trim s) > 0) (split_rx False (Cls ''.!?'') [] text))"

definition jsSignature :: regex where
  "jsSignature =
     alts [seqs [Lit ''function'', Star Sp, Lit ''('', Star (NCls '')''), Lit '')'', Star Sp, Lit ''{''],
           Lit ''const '', Lit ''let '', Lit ''var '', Lit ''=>'']"

definition pythonSignature :: regex where
  "pythonSignature =
     alts [seqs [Lit ''def'', Plus Sp, Plus Wd, Star Sp, Lit ''('', Star (NCls '')''), Lit ''):''],
           seqs [Lit ''import'', Plus Sp, Plus Wd],
           seqs [Lit ''class'', Plus Sp, Plus Wd, Lit '':'']]"

definition javaSignature :: regex where
  "javaSignature =
     alts [seqs [Lit ''public'', Plus Sp, Plus Wd, Star Sp, Lit ''('', Star (NCls '')''), Lit '')'',
                 Star Sp, Lit ''{''],
           Lit ''extends '', Lit ''implements '', Lit ''@Override'']"

definition rustSignature :: regex where
  "rustSignature =
     alts [seqs [Lit ''fn'', Plus Sp, Plus Wd], Lit ''impl'', seqs [Lit ''pub'', Plus Sp, Lit ''struct''],
           seqs [Lit ''use'', Plus Sp, Lit ''std''], Seq (Lit ''::'') (Plus Wd)]"

definition cppSignature :: regex where
  "cppSignature =
     alts [seqs [Lit ''#include'', Star Sp, Lit ''<''],
           seqs [Lit ''void'', Plus Sp, Plus Wd, Star Sp, Lit ''(''],
           seqs [Lit ''int'', Plus Sp, Plus Wd, Star Sp, Lit ''=''],
           Lit ''std::'', seqs [Lit ''template'', Star Sp, Lit ''<'']]"

definition htmlSignature :: regex where
  "htmlSignature =
     alts [Lit ''<!DOCTYPE html>'', Lit ''<html>'', Lit ''<div'', Lit ''<span'', Lit ''className='',
           Lit ''</'']"

definition indicator :: "regex \<Rightarrow> string \<Rightarrow> real" where
  \<comment> \<open>\<open>/r/.test(text) ? 0.9 : -0.5\<close>\<close>
  "indicator r text = (if rx_test False r text then 0.9 else - 0.5)"

text \<open>
  The vector before normalisation. \<open>rnd i\<close> is the value that \<open>Math.random()\<close> returns
  when the loop fills dimension \<open>i\<close>.
\<close>

definition raw_embedding :: "string \<Rightarrow> (nat \<Rightarrow> real) \<Rightarrow> real list" where
  "raw_embedding text rnd =
     (let charCount = length text;
          wordCount = length (text_words text);
          lineCount = length (split_lines text);
          uppercaseCount = match_count False (Cls upper_chars) text;
          digitCount = match_count False Dg text;
          specialCharCount = match_count False (NCls (word_chars @ space_chars)) text;
          embedding = (replicate 32 (0::real))
            [0 := normalizeValue (real charCount) 0 10000,
             1 := normalizeValue (real wordCount) 0 2000,
             2 := normalizeValue (real lineCount) 0 500,
             3 := normalizeValue (real uppercaseCount / real (max charCount 1)) 0 1,
             4 := normalizeValue (real digitCount / real (max charCount 1)) 0 1,
             5 := normalizeValue (real specialCharCount / real (max charCount 1)) 0 1,
             6 := normalizeValue (wordLengthAvg text) 1 20,
             7 := normalizeValue (real (sentenceCount text) / real (max lineCount 1)) 0 10,
             8 := normalizeValue (real (match_count False (Cls ''{}'') text) / or_one lineCount) 0 2,
             9 := normalizeValue (real (match_count False (Cls ''();'') text) / or_one lineCount) 0 5,
             10 := normalizeValue (real (match_count False (Cls ''.!?'') text) / or_one wordCount) 0 10,
             11 := normalizeValue (real (match_count False (Plus Sp) text) / or_one (length text)) 0 5,
             12 := normalizeValue (real (match_count False (Cls lower_chars) text) / or_one (length text)) 0 1,
             13 := normalizeValue (real (match_count False (Cls upper_chars) text) / or_one (length text)) 0 1,
             14 := normalizeValue (real (match_count False (Cls digit_chars) text) / or_one (length text)) 0 1,
             15 := indicator jsSignature text,
             16 := indicator pythonSignature text,
             17 := indicator javaSignature text,
             18 := indicator rustSignature text,
             19 := indicator cppSignature text,
             20 := indicator htmlSignature text]
      in fold (\<lambda>i e. e[i := (rnd i * 2 - 1) * 0.1]) [21 ..< 32] embedding)"

definition magnitude :: "real list \<Rightarrow> real" where
  \<comment> \<open>\<open>Math.sqrt(embedding.reduce((sum, val) => sum + val * val, 0))\<close>\<close>
  "magnitude embedding = sqrt (foldl (\<lambda>sum val. sum + val * val) 0 embedding)"

definition generateTextEmbedding :: "string \<Rightarrow> (nat \<Rightarrow> real) \<Rightarrow> real list" where
  "generateTextEmbedding text rnd =
     (let embedding = raw_embedding text rnd;
          m = magnitude embedding
      in map (\<lambda>val. val / (if m = 0 then 1 else m)) embedding)"


section \<open>The similarity index: \<open>VectorStore\<close>\<close>

record file_entry =
  path :: string
  content :: string

record stored_file = file_entry +
  embedding :: "real list option"


record vector_store =
  files :: "stored_file list"
  apiKey :: "string option"


definition addFile :: "vector_store \<Rightarrow> string \<Rightarrow> string \<Rightarrow> (nat \<Rightarrow> real) \<Rightarrow> vector_store" where
  "addFile store p c rnd =
     store\<lparr>files := files store @
       [\<lparr>path = p, content = c, embedding = Some (generateTextEmbedding c rnd)\<rparr>]\<rparr>"

definition clear :: "vector_store \<Rightarrow> vector_store" where
  "clear store = store\<lparr>files := []\<rparr>"





section \<open>The Euclidean norm\<close>

text \<open>The L2 norm (magnitude) of a vector, in which the properties below are stated.\<close>

definition l2_norm :: "real list \<Rightarrow> real" where
  "l2_norm v = sqrt (sum_list (map (\<lambda>x. x * x) v))"


section \<open>Properties of the security rule engine\<close>

lemma risk_trace_nonempty: "risk_trace ds request st \<noteq> []"
  by (cases ds) simp_all

lemma risk_trace_last:
  "last (risk_trace ds request st) = riskLevel (run_detectors ds request st)"
  by (induction ds arbitrary: st) (simp_all add: run_detectors_def risk_trace_nonempty)

lemma finish_report_riskLevel: "riskLevel (finish_report request st) = riskLevel st"
  by (simp add: finish_report_def Let_def)

lemma localSecurityAnalysis_riskLevel:
  "riskLevel (localSecurityAnalysis request) = last (risk_trace detectors request initial_state)"
  by (simp add: localSecurityAnalysis_def finish_report_riskLevel risk_trace_last)

lemma run_detectors_none_fire:
  "\<forall>d \<in> set ds. \<not> fires d request \<Longrightarrow> run_detectors ds request st = st"
  by (induction ds arbitrary: st) (simp_all add: run_detectors_def detector_step_def)

lemma trace_password_select_input:
  "risk_trace detectors ''password select input'' initial_state =
     [Low, Low, Low, Low, Medium, Critical, Critical, Critical, High, High, High, High, High,
      High, High, High, High, High, High, High, High, High, High, High, High, High, High]"
  by code_simp

subsection \<open>C1: the level can fall during an analysis\<close>

text \<open>
  C1 says that the risk level never decreases while the detectors of
  \<open>localSecurityAnalysis\<close> run and that the result is the highest level reached. On the
  text \<open>password select input\<close> the input-validation detector raises Low to Medium, the
  sensitive-data detector raises Medium to Critical, and the SQL-injection detector then
  assigns High without looking at the current level: the level falls from Critical to
  High, and High is what the analysis returns.
\<close>

theorem risk_level_falls_from_critical_to_high:
  "take 9 (risk_trace detectors ''password select input'' initial_state) =
     [Low, Low, Low, Low, Medium, Critical, Critical, Critical, High] \<and>
   detectors ! 7 = SqlInjection \<and>
   rank (risk_trace detectors ''password select input'' initial_state ! 8) <
   rank (risk_trace detectors ''password select input'' initial_state ! 7) \<and>
   riskLevel (localSecurityAnalysis ''password select input'') = High"
proof -
  have d: "detectors ! 7 = SqlInjection" by (simp add: detectors_def)
  show ?thesis
    unfolding localSecurityAnalysis_riskLevel trace_password_select_input
    using d by simp
qed

subsection \<open>C3: the order of the detectors matters\<close>






subsection \<open>C5: the all-clear report\<close>

text \<open>
  C5: when no detector fires, \<open>localSecurityAnalysis\<close> returns the risk level Low, the
  single threat entry \<open>No obvious security vulnerabilities detected\<close> and the single
  generic recommendation; and for every text the two lists it returns are non-empty.
\<close>

theorem all_clear_report:
  "((\<forall>d \<in> set detectors. \<not> fires d request) \<longrightarrow>
      riskLevel (localSecurityAnalysis request) = Low \<and>
      threats (localSecurityAnalysis request) = [''No obvious security vulnerabilities detected''] \<and>
      recommendations (localSecurityAnalysis request) =
        [''Follow security best practices for your framework/language'']) \<and>
   threats (localSecurityAnalysis request) \<noteq> [] \<and>
   recommendations (localSecurityAnalysis request) \<noteq> []"
proof (intro conjI impI)
  assume "\<forall>d \<in> set detectors. \<not> fires d request"
  then have quiet: "run_detectors detectors request initial_state = initial_state"
    by (rule run_detectors_none_fire)
  show "riskLevel (localSecurityAnalysis request) = Low"
    using quiet by (simp add: localSecurityAnalysis_def finish_report_def initial_state_def Let_def)
  show "threats (localSecurityAnalysis request) = [''No obvious security vulnerabilities detected'']"
    using quiet by (simp add: localSecurityAnalysis_def finish_report_def initial_state_def Let_def)
  show "recommendations (localSecurityAnalysis request) =
        [''Follow security best practices for your framework/language'']"
    using quiet
    by (simp add: localSecurityAnalysis_def finish_report_def initial_state_def
          add_threat_recommendations_def Let_def)
next
  show "threats (localSecurityAnalysis request) \<noteq> []"
    by (simp add: localSecurityAnalysis_def finish_report_def Let_def)
next
  show "recommendations (localSecurityAnalysis request) \<noteq> []"
    by (simp add: localSecurityAnalysis_def finish_report_def Let_def)
qed

lemma no_detector_fires_hello: "filter (\<lambda>d. fires d ''hello'') detectors = []"
  by code_simp

theorem all_clear_report_witness:
  "filter (\<lambda>d. fires d ''hello'') detectors = [] \<and>
   riskLevel (localSecurityAnalysis ''hello'') = Low \<and>
   threats (localSecurityAnalysis ''hello'') = [''No obvious security vulnerabilities detected''] \<and>
   recommendations (localSecurityAnalysis ''hello'') =
     [''Follow security best practices for your framework/language'']"
proof -
  have "\<forall>d \<in> set detectors. \<not> fires d ''hello''"
    using no_detector_fires_hello by (simp add: filter_empty_conv)
  then show ?thesis
    using no_detector_fires_hello all_clear_report [of "''hello''"] by blast
qed

subsection \<open>C6: the confidence heuristic\<close>

text \<open>
  C6: the confidence level is 0.6, plus 0.1 when the detected language is not unknown,
  minus 0.2 when the text has fewer than 100 characters, plus 0.1 when it has more than
  1000; the adjustments add up and the result is not clamped.
\<close>

theorem confidence_level_formula:
  "confidenceLevel (localSecurityAnalysis request) =
     0.6 + (if security_language request \<noteq> Unknown then 0.1 else 0)
         - (if length request < 100 then 0.2 else 0)
         + (if length request > 1000 then 0.1 else 0)"
  by (simp add: localSecurityAnalysis_def finish_report_def confidence_def Let_def)

theorem confidence_level_formula_witness:
  "confidenceLevel (localSecurityAnalysis ''let x = 1'') = 0.6 + 0.1 - 0.2 + 0"
proof -
  have "security_language ''let x = 1'' = JavaScript" by code_simp
  then show ?thesis using confidence_level_formula [of "''let x = 1''"] by simp
qed


section \<open>Properties of the eco rule engine\<close>

lemma baseScore_report [simp]: "baseScore (report i s d st) = baseScore st + d"
  by (simp add: report_def)

lemma baseScore_suggest [simp]: "baseScore (suggest s d st) = baseScore st + d"
  by (simp add: suggest_def)

lemma initial_baseScore_le: "initial_baseScore lang \<le> 75"
  by (simp add: initial_baseScore_def)

lemma initial_baseScore_not_rust: "lang \<noteq> Rust \<Longrightarrow> lang \<noteq> Cpp \<Longrightarrow> initial_baseScore lang \<le> 72"
  by (simp add: initial_baseScore_def)

lemma check_redundancy_le: "baseScore (check_redundancy code st) \<le> baseScore st"
  by (simp add: check_redundancy_def Let_def)

lemma check_duplicates_le: "baseScore (check_duplicates code st) \<le> baseScore st"
  by (simp add: check_duplicates_def Let_def)

lemma check_ai_le: "baseScore (check_ai code st) \<le> baseScore st + 8"
  by (simp add: check_ai_def check_ai_locality_def check_ai_efficiency_def)

lemma check_nested_loops_le: "baseScore (check_nested_loops code st) \<le> baseScore st"
  by (simp add: check_nested_loops_def Let_def)

lemma check_recursion_le: "baseScore (check_recursion code st) \<le> baseScore st"
  by (simp add: check_recursion_def)

lemma check_concatenations_le: "baseScore (check_concatenations code st) \<le> baseScore st"
  by (simp add: check_concatenations_def)

lemma check_crypto_le: "baseScore (check_crypto code st) \<le> baseScore st"
  by (simp add: check_crypto_def)

lemma check_media_le: "baseScore (check_media code st) \<le> baseScore st"
  by (simp add: check_media_def)

lemma js_checks_le:
  "baseScore (js_react_rerenders code (js_dom_operations code (js_dom_iteration code st))) \<le> baseScore st"
  by (simp add: js_react_rerenders_def js_dom_operations_def js_dom_iteration_def Let_def)

lemma py_checks_le:
  "baseScore (py_pandas code (py_gil code (py_list_operations code st))) \<le> baseScore st"
  by (simp add: py_pandas_def py_gil_def py_list_operations_def Let_def)

lemma java_checks_le:
  "baseScore (java_streams code (java_object_creation code (java_string_concat code st))) \<le> baseScore st"
  by (simp add: java_streams_def java_object_creation_def java_string_concat_def Let_def)

lemma rust_checks_le:
  "baseScore (rust_async code (rust_memory_safety code (rust_clone code (rust_to_string code st))))
     \<le> baseScore st + 5"
  by (simp add: rust_async_def rust_memory_safety_def rust_clone_def rust_to_string_def)

lemma cpp_checks_le:
  "baseScore (cpp_large_buffer code (cpp_memory_leak code st)) \<le> baseScore st"
  by (simp add: cpp_large_buffer_def cpp_memory_leak_def Let_def)

lemma check_language_specific_le:
  "baseScore (check_language_specific lang code st) \<le> baseScore st + 5"
proof -
  have "baseScore (js_react_rerenders code (js_dom_operations code (js_dom_iteration code st)))
          \<le> baseScore st + 5"
    using js_checks_le [of code st] by linarith
  moreover have "baseScore (py_pandas code (py_gil code (py_list_operations code st)))
          \<le> baseScore st + 5"
    using py_checks_le [of code st] by linarith
  moreover have "baseScore (java_streams code (java_object_creation code (java_string_concat code st)))
          \<le> baseScore st + 5"
    using java_checks_le [of code st] by linarith
  moreover have "baseScore (cpp_large_buffer code (cpp_memory_leak code st)) \<le> baseScore st + 5"
    using cpp_checks_le [of code st] by linarith
  ultimately show ?thesis
    using rust_checks_le [of code st] by (simp add: check_language_specific_def)
qed

lemma check_string_concat_le: "baseScore (check_string_concat lang code st) \<le> baseScore st"
  by (simp add: check_string_concat_def)

lemma run_checks_le: "baseScore (run_checks code) \<le> 88"
proof -
  define language where "language = eco_language code"
  define st0 where "st0 = \<lparr>issues = [], suggestions = [], baseScore = initial_baseScore language\<rparr>"
  define st1 where "st1 = check_redundancy code st0"
  define st2 where "st2 = check_duplicates code st1"
  define st3 where "st3 = check_ai code st2"
  define st4 where "st4 = check_nested_loops code st3"
  define st5 where "st5 = check_recursion code st4"
  define st6 where "st6 = check_concatenations code st5"
  define st7 where "st7 = check_crypto code st6"
  define st8 where "st8 = check_media code st7"
  define st9 where "st9 = check_language_specific language code st8"
  have r: "run_checks code = check_string_concat language code st9"
    by (simp add: run_checks_def Let_def language_def st0_def st1_def st2_def st3_def st4_def
          st5_def st6_def st7_def st8_def st9_def)
  have "baseScore st0 \<le> 75" by (simp add: st0_def initial_baseScore_le)
  moreover have "baseScore st1 \<le> baseScore st0" unfolding st1_def by (rule check_redundancy_le)
  moreover have "baseScore st2 \<le> baseScore st1" unfolding st2_def by (rule check_duplicates_le)
  moreover have "baseScore st3 \<le> baseScore st2 + 8" unfolding st3_def by (rule check_ai_le)
  moreover have "baseScore st4 \<le> baseScore st3" unfolding st4_def by (rule check_nested_loops_le)
  moreover have "baseScore st5 \<le> baseScore st4" unfolding st5_def by (rule check_recursion_le)
  moreover have "baseScore st6 \<le> baseScore st5" unfolding st6_def by (rule check_concatenations_le)
  moreover have "baseScore st7 \<le> baseScore st6" unfolding st7_def by (rule check_crypto_le)
  moreover have "baseScore st8 \<le> baseScore st7" unfolding st8_def by (rule check_media_le)
  moreover have "baseScore st9 \<le> baseScore st8 + 5"
    unfolding st9_def by (rule check_language_specific_le)
  moreover have "baseScore (check_string_concat language code st9) \<le> baseScore st9"
    by (rule check_string_concat_le)
  ultimately show ?thesis unfolding r by linarith
qed

lemma penalties_le:
  fixes s a b :: int
  assumes "0 \<le> a" "0 \<le> b"
  shows "(let e1 = s - a;
              e2 = (if n then e1 - b else e1);
              e3 = (if c1 then e2 - 3 else e2);
              e4 = (if c2 then e3 - 5 else e3)
          in if c3 then e4 - 5 else e4) \<le> s"
  using assms by (auto simp: Let_def)

lemma unclamped_le: "ecoScore (unclamped code) \<le> baseScore (run_checks code)"
proof -
  have a: "0 \<le> min 20 (int (length (issues (run_checks code))) * 5)" by simp
  have b: "0 \<le> min 15 (int (nestedLoopCount code) * 5)" by simp
  have "ecoScore (unclamped code) =
     (let e1 = baseScore (run_checks code) - min 20 (int (length (issues (run_checks code))) * 5);
          e2 = (if nestedLoopCount code > 0 then e1 - min 15 (int (nestedLoopCount code) * 5) else e1);
          e3 = (if length code > 5000 then e2 - 3 else e2);
          e4 = (if length code > 10000 then e3 - 5 else e3)
      in if length (split_lines code) > 500 then e4 - 5 else e4)"
    by (simp add: unclamped_def Let_def)
  then show ?thesis using penalties_le [OF a b] by simp
qed

lemma clamp_bonus:
  fixes x :: int
  assumes "x \<le> 88"
  shows "35 \<le> max 35 (min 95 x) + (if c then 5 else 0) \<and>
         max 35 (min 95 x) + (if c then 5 else 0) \<le> 95"
  using assms by (cases c) auto

lemma localEcoAnalysis_ecoScore:
  "ecoScore (localEcoAnalysis code) =
     max 35 (min 95 (ecoScore (unclamped code))) + (if issues (unclamped code) = [] then 5 else 0)"
  by (simp add: localEcoAnalysis_def Let_def)

subsection \<open>C2: the range of the eco score\<close>

text \<open>
  C2: for every text the eco score returned by \<open>localEcoAnalysis\<close> lies between 35 and 95;
  it is the score computed by the rules clamped to that interval, plus 5 when no issue
  was found, the bonus being added after the clamp. (The bonus cannot leave the interval:
  the computed score is at most 88, the baseline of 75 plus the bonuses 5, 3 and 5.)
\<close>

theorem eco_score_range:
  "35 \<le> ecoScore (localEcoAnalysis code) \<and>
   ecoScore (localEcoAnalysis code) \<le> 95 \<and>
   ecoScore (localEcoAnalysis code) =
     max 35 (min 95 (ecoScore (unclamped code))) + (if issues (unclamped code) = [] then 5 else 0)"
proof -
  have "ecoScore (unclamped code) \<le> 88"
    using unclamped_le [of code] run_checks_le [of code] by linarith
  then show ?thesis
    using clamp_bonus [of "ecoScore (unclamped code)" "issues (unclamped code) = []"]
    by (simp only: localEcoAnalysis_ecoScore simp_thms)
qed

lemma eco_example_unclamped:
  "ecoScore (unclamped ''x'') = 70 \<and> issues (unclamped ''x'') = []"
  by code_simp

theorem eco_score_range_witness:
  "ecoScore (localEcoAnalysis ''x'') = 75"
  using eco_score_range [of "''x''"] eco_example_unclamped
  by simp


section \<open>The two language detections\<close>

subsection \<open>C4: the two engines can disagree on the language\<close>

text \<open>
  C4 as stated, for the text \<open>var x\<close>: the detection in \<open>localSecurityAnalysis\<close> knows
  no \<open>var\<close> signature and answers unknown, the detection in \<open>localEcoAnalysis\<close> matches
  \<open>var\\s+\<close> and answers JavaScript/TypeScript.
\<close>

theorem language_tags_differ:
  "security_language ''var x'' = Unknown \<and> eco_language ''var x'' = JavaScript"
  by code_simp

text \<open>
  C4 as amended: each engine computes its own tag of the enumeration from the lower-cased
  text, by its own ordered list of signatures. The two tags are equal exactly when the
  text has the Rust or the Java signature, or has the Python signature and not the
  JavaScript signature of the eco engine, or has no Python signature and the JavaScript
  signatures of the two engines agree on it.
\<close>

theorem language_tags_agree_iff:
  "(security_language text = eco_language text) =
     (rust_signature (toLowerCase text) \<or> java_signature (toLowerCase text) \<or>
      (python_signature (toLowerCase text) \<and> \<not> eco_js_signature (toLowerCase text)) \<or>
      (\<not> python_signature (toLowerCase text) \<and>
       security_js_signature (toLowerCase text) = eco_js_signature (toLowerCase text)))"
  by (auto simp: security_language_def eco_language_def Let_def)

lemma signatures_let_x:
  "\<not> rust_signature (toLowerCase ''let x'') \<and> \<not> java_signature (toLowerCase ''let x'') \<and>
   \<not> python_signature (toLowerCase ''let x'') \<and>
   security_js_signature (toLowerCase ''let x'') \<and> eco_js_signature (toLowerCase ''let x'')"
  by code_simp

theorem language_tags_agree_witness:
  "security_js_signature (toLowerCase ''let x'') = eco_js_signature (toLowerCase ''let x'') \<and>
   security_language ''let x'' = eco_language ''let x''"
  using language_tags_agree_iff [of "''let x''"] signatures_let_x by simp


section \<open>Properties of the embedding generator\<close>

lemma foldl_squares: "foldl (\<lambda>sum val. sum + val * val) acc xs = acc + sum_list (map (\<lambda>x. x * x) xs)"
  for acc :: real
  by (induction xs arbitrary: acc) simp_all

lemma magnitude_l2_norm: "magnitude v = l2_norm v"
  by (simp add: magnitude_def l2_norm_def foldl_squares)

lemma sum_squares_nonneg: "0 \<le> sum_list (map (\<lambda>x. x * x) xs)" for xs :: "real list"
  by (induction xs) simp_all

lemma sum_squares_ge_nth:
  "i < length xs \<Longrightarrow> xs ! i * xs ! i \<le> sum_list (map (\<lambda>x. x * x) xs)" for xs :: "real list"
proof (induction xs arbitrary: i)
  case Nil
  then show ?case by simp
next
  case (Cons x xs)
  show ?case
  proof (cases i)
    case 0
    then show ?thesis using sum_squares_nonneg [of xs] by simp
  next
    case (Suc j)
    then have "xs ! j * xs ! j \<le> sum_list (map (\<lambda>x. x * x) xs)" using Cons by simp
    then show ?thesis using Suc by (simp add: add_increasing)
  qed
qed

lemma length_fold_update: "length (fold (\<lambda>i e. e[i := f i]) is e) = length e"
  by (induction "is" arbitrary: e) simp_all

lemma nth_fold_update: "j \<notin> set is \<Longrightarrow> fold (\<lambda>i e. e[i := f i]) is e ! j = e ! j"
  by (induction "is" arbitrary: e) simp_all

lemma length_raw_embedding: "length (raw_embedding text rnd) = 32"
  by (simp add: raw_embedding_def Let_def length_fold_update)

lemma raw_embedding_15: "raw_embedding text rnd ! 15 = indicator jsSignature text"
  by (simp add: raw_embedding_def Let_def nth_fold_update)
lemma raw_embedding_16: "raw_embedding text rnd ! 16 = indicator pythonSignature text"
  by (simp add: raw_embedding_def Let_def nth_fold_update)
lemma raw_embedding_17: "raw_embedding text rnd ! 17 = indicator javaSignature text"
  by (simp add: raw_embedding_def Let_def nth_fold_update)
lemma raw_embedding_18: "raw_embedding text rnd ! 18 = indicator rustSignature text"
  by (simp add: raw_embedding_def Let_def nth_fold_update)
lemma raw_embedding_19: "raw_embedding text rnd ! 19 = indicator cppSignature text"
  by (simp add: raw_embedding_def Let_def nth_fold_update)
lemma raw_embedding_20: "raw_embedding text rnd ! 20 = indicator htmlSignature text"
  by (simp add: raw_embedding_def Let_def nth_fold_update)

lemma indicator_values: "indicator r text = 0.9 \<or> indicator r text = - 0.5"
  by (simp add: indicator_def)

lemma indicator_square: "1 / 4 \<le> indicator r text * indicator r text"
  by (simp add: indicator_def)

lemma raw_sum_squares_pos: "0 < sum_list (map (\<lambda>x. x * x) (raw_embedding text rnd))"
proof -
  have "raw_embedding text rnd ! 15 * raw_embedding text rnd ! 15
          \<le> sum_list (map (\<lambda>x. x * x) (raw_embedding text rnd))"
    by (rule sum_squares_ge_nth) (simp add: length_raw_embedding)
  then show ?thesis
    using indicator_square [of jsSignature "text"] by (simp add: raw_embedding_15)
qed

lemma raw_magnitude_pos: "0 < magnitude (raw_embedding text rnd)"
  using raw_sum_squares_pos [of "text" rnd] by (simp add: magnitude_l2_norm l2_norm_def)

lemma sum_list_map_divide:
  "sum_list (map (\<lambda>x. f x / c) xs) = sum_list (map f xs) / c" for c :: real
  by (induction xs) (simp_all add: add_divide_distrib)

lemma l2_norm_scaled:
  assumes "l2_norm v \<noteq> 0"
  shows "l2_norm (map (\<lambda>val. val / l2_norm v) v) = 1"
proof -
  let ?s = "sum_list (map (\<lambda>x. x * x) v)"
  have pos: "0 < ?s"
    using assms sum_squares_nonneg [of v] by (auto simp: l2_norm_def less_le)
  have "sum_list (map (\<lambda>x. x * x) (map (\<lambda>val. val / l2_norm v) v)) =
        sum_list (map (\<lambda>x. (x * x) / (l2_norm v * l2_norm v)) v)"
    by (simp add: comp_def)
  also have "\<dots> = ?s / (l2_norm v * l2_norm v)"
    by (rule sum_list_map_divide)
  also have "l2_norm v * l2_norm v = ?s"
    using pos by (simp add: l2_norm_def)
  finally have "sum_list (map (\<lambda>x. x * x) (map (\<lambda>val. val / l2_norm v) v)) = 1"
    using pos by simp
  then show ?thesis by (simp add: l2_norm_def)
qed

lemma normalized_unit:
  assumes "magnitude (raw_embedding text rnd) \<noteq> 0"
  shows "l2_norm (generateTextEmbedding text rnd) = 1"
  using assms l2_norm_scaled [of "raw_embedding text rnd"]
  by (simp add: generateTextEmbedding_def Let_def magnitude_l2_norm)



subsection \<open>C7: length and norm of the embedding\<close>

text \<open>
  C7: for every text and every value of the random draws, the vector returned by
  \<open>generateTextEmbedding\<close> has 32 entries, and its L2 norm is 1 unless the magnitude of
  the vector before normalisation is zero (the guard case, in which it is divided by 1).
  Numbers are exact reals here, so the norm is exactly 1.
\<close>

theorem embedding_length_and_unit_norm:
  "length (generateTextEmbedding text rnd) = 32 \<and>
   (magnitude (raw_embedding text rnd) \<noteq> 0 \<longrightarrow> l2_norm (generateTextEmbedding text rnd) = 1)"
proof (intro conjI impI)
  show "length (generateTextEmbedding text rnd) = 32"
    by (simp add: generateTextEmbedding_def Let_def length_raw_embedding)
next
  assume "magnitude (raw_embedding text rnd) \<noteq> 0"
  then show "l2_norm (generateTextEmbedding text rnd) = 1"
    by (rule normalized_unit)
qed

lemma jsSignature_a: "\<not> rx_test False jsSignature ''a''"
  by code_simp

lemma raw_magnitude_a: "magnitude (raw_embedding ''a'' (\<lambda>i. 1 / 2)) \<noteq> 0"
proof -
  let ?e = "raw_embedding ''a'' (\<lambda>i. 1 / 2)"
  have "indicator jsSignature ''a'' = - 0.5"
    by (simp only: indicator_def jsSignature_a if_False)
  then have "?e ! 15 = - 0.5"
    by (simp only: raw_embedding_15)
  moreover have "?e ! 15 * ?e ! 15 \<le> sum_list (map (\<lambda>x. x * x) ?e)"
    by (rule sum_squares_ge_nth) (simp add: length_raw_embedding)
  ultimately have "0 < sum_list (map (\<lambda>x. x * x) ?e)" by simp
  then show ?thesis by (simp add: magnitude_l2_norm l2_norm_def)
qed

theorem embedding_length_and_unit_norm_witness:
  "length (generateTextEmbedding ''a'' (\<lambda>i. 1 / 2)) = 32 \<and>
   magnitude (raw_embedding ''a'' (\<lambda>i. 1 / 2)) \<noteq> 0 \<and>
   l2_norm (generateTextEmbedding ''a'' (\<lambda>i. 1 / 2)) = 1"
  using raw_magnitude_a embedding_length_and_unit_norm [of "''a''" "\<lambda>i. 1 / 2"]
  by simp

subsection \<open>C10: the zero-magnitude guard is never taken\<close>

text \<open>
  C10: for every text and every value of the random draws, the vector built before
  normalisation has a strictly positive magnitude, each of its dimensions 15 to 20 being
  0.9 or -0.5; so the guard that divides by 1 is never taken and the returned embedding
  has norm 1, with no excluded case.
\<close>

theorem embedding_guard_unreachable:
  "0 < magnitude (raw_embedding text rnd) \<and>
   (raw_embedding text rnd ! 15 = 0.9 \<or> raw_embedding text rnd ! 15 = - 0.5) \<and>
   (raw_embedding text rnd ! 16 = 0.9 \<or> raw_embedding text rnd ! 16 = - 0.5) \<and>
   (raw_embedding text rnd ! 17 = 0.9 \<or> raw_embedding text rnd ! 17 = - 0.5) \<and>
   (raw_embedding text rnd ! 18 = 0.9 \<or> raw_embedding text rnd ! 18 = - 0.5) \<and>
   (raw_embedding text rnd ! 19 = 0.9 \<or> raw_embedding text rnd ! 19 = - 0.5) \<and>
   (raw_embedding text rnd ! 20 = 0.9 \<or> raw_embedding text rnd ! 20 = - 0.5) \<and>
   l2_norm (generateTextEmbedding text rnd) = 1"
proof -
  have pos: "0 < magnitude (raw_embedding text rnd)" by (rule raw_magnitude_pos)
  then have "l2_norm (generateTextEmbedding text rnd) = 1"
    by (intro normalized_unit) simp
  then show ?thesis
    using pos
    by (simp only: raw_embedding_15 raw_embedding_16 raw_embedding_17 raw_embedding_18
          raw_embedding_19 raw_embedding_20 indicator_values simp_thms)
qed

lemma htmlSignature_div: "rx_test False htmlSignature ''<div>''"
  by code_simp

theorem embedding_guard_unreachable_witness:
  "0 < magnitude (raw_embedding ''<div>'' (\<lambda>i. 0)) \<and>
   raw_embedding ''<div>'' (\<lambda>i. 0) ! 20 = 0.9 \<and>
   l2_norm (generateTextEmbedding ''<div>'' (\<lambda>i. 0)) = 1"
proof -
  have "indicator htmlSignature ''<div>'' = 0.9"
    by (simp only: indicator_def htmlSignature_div if_True)
  then have "raw_embedding ''<div>'' (\<lambda>i. 0) ! 20 = 0.9"
    by (simp only: raw_embedding_20)
  then show ?thesis
    using embedding_guard_unreachable [of "''<div>''" "\<lambda>i. 0"] by blast
qed


section \<open>Properties of the similarity index\<close>















subsection \<open>C9: cosine similarity\<close>



subsection \<open>C8: search\<close>



end
